theory Spec2Isabelle
  imports Complex_Main
begin

section \<open>JavaScript numbers and values\<close>

text \<open>
  A JavaScript \<^verbatim>\<open>number\<close> is a finite value, one of the two infinities, or NaN.
  Finite values are modelled as rationals: the arithmetic on them is exact, zero is
  unsigned, and the special values follow IEEE 754 as JavaScript does
  (\<^verbatim>\<open>1 / 0\<close> is \<^verbatim>\<open>Infinity\<close>, \<^verbatim>\<open>0 / 0\<close> is \<^verbatim>\<open>NaN\<close>, every comparison with
  \<^verbatim>\<open>NaN\<close> is false). A double that is not exact can differ from the rational in its
  last bit, and with it in the rounding of a value that lies halfway.
\<close>

datatype jsnum = Fin rat | PosInf | NegInf | NaN

text \<open>
  The values an untyped option can hold at run time, as far as the checks of the
  source tell them apart.
\<close>

datatype jsval = JUndefined | JNull | JNumber jsnum | JString string

fun js_neg :: "jsnum \<Rightarrow> jsnum" where
  "js_neg (Fin x) = Fin (- x)"
| "js_neg PosInf = NegInf"
| "js_neg NegInf = PosInf"
| "js_neg NaN = NaN"

fun js_add :: "jsnum \<Rightarrow> jsnum \<Rightarrow> jsnum" where
  "js_add NaN _ = NaN"
| "js_add _ NaN = NaN"
| "js_add (Fin x) (Fin y) = Fin (x + y)"
| "js_add PosInf NegInf = NaN"
| "js_add NegInf PosInf = NaN"
| "js_add PosInf _ = PosInf"
| "js_add NegInf _ = NegInf"
| "js_add (Fin x) PosInf = PosInf"
| "js_add (Fin x) NegInf = NegInf"

definition js_sub :: "jsnum \<Rightarrow> jsnum \<Rightarrow> jsnum" where
  "js_sub a b = js_add a (js_neg b)"

text \<open>The sign of a number that is not NaN: \<open>-1\<close>, \<open>0\<close> or \<open>1\<close>.\<close>

fun js_sign :: "jsnum \<Rightarrow> int" where
  "js_sign (Fin x) = (if x < 0 then - 1 else if x = 0 then 0 else 1)"
| "js_sign PosInf = 1"
| "js_sign NegInf = - 1"
| "js_sign NaN = 0"

definition signed_inf :: "int \<Rightarrow> jsnum" where
  "signed_inf s = (if s < 0 then NegInf else if s = 0 then NaN else PosInf)"

fun js_mul :: "jsnum \<Rightarrow> jsnum \<Rightarrow> jsnum" where
  "js_mul NaN _ = NaN"
| "js_mul _ NaN = NaN"
| "js_mul (Fin x) (Fin y) = Fin (x * y)"
| "js_mul a b = signed_inf (js_sign a * js_sign b)"

fun js_div :: "jsnum \<Rightarrow> jsnum \<Rightarrow> jsnum" where
  "js_div NaN _ = NaN"
| "js_div _ NaN = NaN"
| "js_div (Fin x) (Fin y) = (if y = 0 then signed_inf (js_sign (Fin x)) else Fin (x / y))"
| "js_div (Fin x) _ = Fin 0"
| "js_div a (Fin y) = signed_inf (js_sign a * (if y < 0 then - 1 else 1))"
| "js_div _ _ = NaN"

fun js_lt :: "jsnum \<Rightarrow> jsnum \<Rightarrow> bool" where
  "js_lt NaN _ = False"
| "js_lt _ NaN = False"
| "js_lt (Fin x) (Fin y) = (x < y)"
| "js_lt NegInf b = (b \<noteq> NegInf)"
| "js_lt a PosInf = (a \<noteq> PosInf)"
| "js_lt _ _ = False"

definition js_eq :: "jsnum \<Rightarrow> jsnum \<Rightarrow> bool" where
  "js_eq a b = (a \<noteq> NaN \<and> a = b)"

definition js_le :: "jsnum \<Rightarrow> jsnum \<Rightarrow> bool" where
  "js_le a b = (js_lt a b \<or> js_eq a b)"

definition js_gt :: "jsnum \<Rightarrow> jsnum \<Rightarrow> bool" where
  "js_gt a b = js_lt b a"

definition js_ge :: "jsnum \<Rightarrow> jsnum \<Rightarrow> bool" where
  "js_ge a b = js_le b a"

definition Math_max :: "jsnum \<Rightarrow> jsnum \<Rightarrow> jsnum" where
  "Math_max a b = (if a = NaN \<or> b = NaN then NaN else if js_lt a b then b else a)"

definition Math_min :: "jsnum \<Rightarrow> jsnum \<Rightarrow> jsnum" where
  "Math_min a b = (if a = NaN \<or> b = NaN then NaN else if js_lt b a then b else a)"

text \<open>\<^verbatim>\<open>Math.round\<close> rounds to the nearest integer, a half towards \<open>+\<infinity>\<close>.\<close>

fun Math_round :: "jsnum \<Rightarrow> jsnum" where
  "Math_round (Fin x) = Fin (of_int \<lfloor>x + 1 / 2\<rfloor>)"
| "Math_round a = a"

definition isNaN :: "jsnum \<Rightarrow> bool" where
  "isNaN a = (a = NaN)"

fun isFinite :: "jsnum \<Rightarrow> bool" where
  "isFinite (Fin x) = True"
| "isFinite _ = False"

section \<open>utils.ts\<close>

text \<open>
  \<^verbatim>\<open>round(num, precision = 0)\<close>: \<^verbatim>\<open>Math.round(num)\<close> when \<^verbatim>\<open>precision <= 0\<close>, otherwise
  \<^verbatim>\<open>Math.round(num * n) / n\<close> with \<^verbatim>\<open>n = Math.pow(10, precision)\<close>. Every call site passes
  an integer literal as precision.
\<close>

definition round_to :: "jsnum \<Rightarrow> int \<Rightarrow> jsnum" where
  "round_to num precision =
     (if precision \<le> 0 then Math_round num
      else let n = Fin (10 ^ nat precision) in js_div (Math_round (js_mul num n)) n)"

text \<open>\<^verbatim>\<open>isNumber(v)\<close>: \<^verbatim>\<open>typeof v === 'number' && !isNaN(v)\<close>.\<close>

fun isNumber :: "jsval \<Rightarrow> bool" where
  "isNumber (JNumber n) = (\<not> isNaN n)"
| "isNumber _ = False"

text \<open>
  \<^verbatim>\<open>clamp(v, min, max?)\<close>: a value that is not a number becomes \<^verbatim>\<open>min\<close>; \<^verbatim>\<open>max\<close> is
  applied only when it is a number.
\<close>

fun clamp :: "jsval \<Rightarrow> jsnum \<Rightarrow> jsval \<Rightarrow> jsnum" where
  "clamp (JNumber v) mn mx =
     (if isNumber (JNumber v) then
        (let v1 = Math_max v mn in
         case mx of JNumber m \<Rightarrow> (if isNumber mx then Math_min v1 m else v1) | _ \<Rightarrow> v1)
      else mn)"
| "clamp _ mn mx = mn"


text \<open>
  \<^verbatim>\<open>getChar(s)\<close>, at the type the options give it (\<^verbatim>\<open>string | undefined\<close>): the first
  character of a non-empty string, any other value unchanged.
\<close>

definition getChar :: "string option \<Rightarrow> string option" where
  "getChar s = (case s of Some (c # cs) \<Rightarrow> Some [c] | _ \<Rightarrow> s)"

datatype error = TypeError string | Error string | RangeError string

text \<open>
  \<^verbatim>\<open>repeat(n, c)\<close> is \<^verbatim>\<open>Array(n).join(c)\<close>. \<^verbatim>\<open>Array(n)\<close> throws a RangeError unless
  \<^verbatim>\<open>n\<close> is an integer with \<open>0 \<le> n < 2\<^sup>3\<^sup>2\<close>; joining \<open>n\<close> empty slots gives
  \<open>n - 1\<close> copies of the separator (none for \<open>n = 0\<close>).
\<close>

definition repeat :: "jsnum \<Rightarrow> string \<Rightarrow> error + string" where
  "repeat n c =
     (case n of
        Fin x \<Rightarrow>
          (if of_int \<lfloor>x\<rfloor> = x \<and> 0 \<le> x \<and> x < 2 ^ 32
           then Inr (concat (replicate (nat \<lfloor>x\<rfloor> - 1) c))
           else Inl (RangeError ''Invalid array length''))
      | _ \<Rightarrow> Inl (RangeError ''Invalid array length''))"

section \<open>Strings\<close>

text \<open>
  A JavaScript string is a sequence of UTF-16 code units; here a \<^typ>\<open>char\<close> stands for
  one code unit, so \<^const>\<open>length\<close> is \<^verbatim>\<open>.length\<close>.

  \<^verbatim>\<open>s.replace(pat, rep)\<close> with a string pattern replaces the first occurrence of
  \<^verbatim>\<open>pat\<close> only, and expands in \<^verbatim>\<open>rep\<close> the patterns \<^verbatim>\<open>$$\<close> (a dollar sign),
  \<^verbatim>\<open>$&\<close> (the match), \<^verbatim>\<open>$`\<close> (the text before the match) and \<^verbatim>\<open>$'\<close> (the text after
  it); there are no capture groups, so every other \<^verbatim>\<open>$\<close> stays as it is.
\<close>

fun split_first :: "string \<Rightarrow> string \<Rightarrow> (string \<times> string) option" where
  "split_first pat [] = (if pat = [] then Some ([], []) else None)"
| "split_first pat (c # cs) =
     (if take (length pat) (c # cs) = pat then Some ([], drop (length pat) (c # cs))
      else (case split_first pat cs of
              None \<Rightarrow> None
            | Some (pre, post) \<Rightarrow> Some (c # pre, post)))"

fun get_substitution :: "string \<Rightarrow> string \<Rightarrow> string \<Rightarrow> string \<Rightarrow> string" where
  "get_substitution m pre post [] = []"
| "get_substitution m pre post [c] = [c]"
| "get_substitution m pre post (c # d # r) =
     (if c = CHR ''$'' then
        (if d = CHR ''$'' then CHR ''$'' # get_substitution m pre post r
         else if d = CHR ''&'' then m @ get_substitution m pre post r
         else if d = CHR 0x60 then pre @ get_substitution m pre post r
         else if d = CHR 0x27 then post @ get_substitution m pre post r
         else c # get_substitution m pre post (d # r))
      else c # get_substitution m pre post (d # r))"

definition js_replace :: "string \<Rightarrow> string \<Rightarrow> string \<Rightarrow> string" where
  "js_replace s pat rep =
     (case split_first pat s of
        None \<Rightarrow> s
      | Some (pre, post) \<Rightarrow> pre @ get_substitution pat pre post rep @ post)"

definition js_includes :: "string \<Rightarrow> string \<Rightarrow> bool" where
  "js_includes s pat = (split_first pat s \<noteq> None)"

text \<open>\<^verbatim>\<open>s.slice(0, -1)\<close>: the string without its last code unit.\<close>

definition slice_0_m1 :: "string \<Rightarrow> string" where
  "slice_0_m1 s = butlast s"

text \<open>
  \<^verbatim>\<open>s.substring(0, e)\<close>: the end index is truncated to an integer and clamped to
  \<open>0 .. length s\<close>.
\<close>

definition substring_0 :: "string \<Rightarrow> int \<Rightarrow> string" where
  "substring_0 s e = take (nat e) s"

text \<open>
  \<^verbatim>\<open>x.toFixed(f)\<close>: the decimal digits of the integer \<open>n\<close> closest to \<open>x * 10\<^sup>f\<close>
  (the larger one of two), with a point before the last \<open>f\<close> digits, after a minus
  sign for a negative \<open>x\<close>. A value that is not finite, or is at least \<open>10\<^sup>2\<^sup>1\<close>, is
  printed by \<^verbatim>\<open>Number.prototype.toString\<close>, which is a parameter here.
\<close>

definition digit_char :: "nat \<Rightarrow> char" where
  "digit_char d = ''0123456789'' ! d"

fun decimal :: "nat \<Rightarrow> string" where
  "decimal n = (if n < 10 then [digit_char n] else decimal (n div 10) @ [digit_char (n mod 10)])"

definition fixed_digits :: "nat \<Rightarrow> rat \<Rightarrow> string" where
  "fixed_digits f x =
     (let n = nat \<lfloor>x * 10 ^ f + 1 / 2\<rfloor>;
          m = decimal n;
          m = (if length m \<le> f then replicate (f + 1 - length m) (CHR ''0'') @ m else m);
          k = length m
      in if f \<noteq> 0 then take (k - f) m @ ''.'' @ drop (k - f) m else m)"

definition toFixed :: "(jsnum \<Rightarrow> string) \<Rightarrow> jsnum \<Rightarrow> nat \<Rightarrow> string" where
  "toFixed toString x f =
     (case x of
        Fin r \<Rightarrow>
          (if r < 0 then
             (if - r \<ge> 10 ^ 21 then ''-'' @ toString (Fin (- r)) else ''-'' @ fixed_digits f (- r))
           else
             (if r \<ge> 10 ^ 21 then toString (Fin r) else fixed_digits f r))
      | _ \<Rightarrow> toString x)"


section \<open>types.ts\<close>

record Progress =
  percent :: jsnum
  current :: jsnum
  total :: jsnum
  remaining :: jsnum
  eta :: jsnum
  runtime :: jsnum
  speed :: jsnum

section \<open>ProgressBar.ts\<close>

text \<open>
  What the bar uses of its \<^verbatim>\<open>NodeJS.WriteStream\<close>: whether it is a terminal, its live
  column count, and whether it has a \<^verbatim>\<open>clearLine\<close> method at all. What the bar does to
  the stream, and the call of the \<^verbatim>\<open>onComplete\<close> listener, are recorded as effects in
  the order they happen; the listener is taken not to call back into the bar.
  The custom tokens of a tick are the pairs that \<^verbatim>\<open>Object.entries\<close> lists, in its order.
\<close>

record WriteStream =
  isTTY :: bool
  columns :: int
  has_clearLine :: bool

datatype effect =
    Write string
  | CursorTo jsnum "jsnum option"
  | ClearLine int
  | OnComplete

text \<open>
  What the module takes from its platform: \<^verbatim>\<open>process.stderr\<close>, whether
  \<^verbatim>\<open>platform()\<close> is \<^verbatim>\<open>'win32'\<close>, and \<^verbatim>\<open>Number.prototype.toString\<close>.
\<close>

record platform =
  stderr :: WriteStream
  IS_WINDOWS :: bool
  Number_toString :: "jsnum \<Rightarrow> string"

record ProgressBarOptions =
  opt_format :: "string option"
  opt_total :: jsval
  opt_current :: "jsnum option"
  opt_width :: jsval
  opt_minWidth :: jsval
  opt_interval :: jsval
  opt_stream :: "WriteStream option"
  opt_clear :: "bool option"
  opt_completeChar :: "string option"
  opt_incompleteChar :: "string option"
  opt_line :: jsval
  opt_formatValue :: "(jsnum \<Rightarrow> string) option"

record ProgressBar =
  tokens :: "(string \<times> string) list option"
  lastDraw :: string
  completed :: bool
  format :: string
  width :: jsval
  minWidth :: jsnum
  stream :: WriteStream
  clear :: bool
  completeChar :: string
  incompleteChar :: string
  line :: "jsnum option"
  formatValue :: "jsnum \<Rightarrow> string"
  interval :: jsnum
  total_f :: "jsnum option"
  prevTime :: "int option"
  startTime :: int
  endTime :: int
  progress :: Progress

text \<open>
  The default glyphs, the full block U+2588 and the light shade U+2591, are one code
  unit each; they are written here with the codes 0xDB and 0xB0 they have in code
  page 437.
\<close>

definition C_COMPLETE :: string where
  "C_COMPLETE = [CHR 0xDB]"

definition C_INCOMPLETE :: string where
  "C_INCOMPLETE = [CHR 0xB0]"

definition MIN_WIDTH :: jsnum where
  "MIN_WIDTH = Fin 20"

text \<open>\<^verbatim>\<open>v != null\<close>\<close>

fun not_nullish :: "jsval \<Rightarrow> bool" where
  "not_nullish JUndefined = False"
| "not_nullish JNull = False"
| "not_nullish _ = True"

text \<open>
  \<^verbatim>\<open>!isNumber(v) || !isFinite(v) || v <= 0\<close>, the test of the constructor and of the
  setter on a total; the second and third disjunct are evaluated on numbers only.
\<close>

definition rejected_total :: "jsval \<Rightarrow> bool" where
  "rejected_total v =
     (\<not> isNumber v \<or> (case v of JNumber n \<Rightarrow> \<not> isFinite n \<or> js_le n (Fin 0) | _ \<Rightarrow> True))"

text \<open>\<^verbatim>\<open>!isNumber(v) || !isFinite(v) || v < 0\<close>, the test on an interval.\<close>

definition rejected_interval :: "jsval \<Rightarrow> bool" where
  "rejected_interval v =
     (\<not> isNumber v \<or> (case v of JNumber n \<Rightarrow> \<not> isFinite n \<or> js_lt n (Fin 0) | _ \<Rightarrow> True))"

text \<open>
  The setter of \<^verbatim>\<open>total\<close>. It returns the error thrown, if any, with the state the
  bar is left in.
\<close>

definition set_total :: "jsval \<Rightarrow> ProgressBar \<Rightarrow> error option \<times> ProgressBar" where
  "set_total v b =
     (if rejected_total v then (Some (Error ''total value must be a finite positive number''), b)
      else (case v of
              JNumber n \<Rightarrow>
                (None, b\<lparr>total_f := Some n, progress := (progress b)\<lparr>total := n\<rparr>\<rparr>)
            | _ \<Rightarrow> (None, b)))"

text \<open>The getters.\<close>

definition get_total :: "ProgressBar \<Rightarrow> jsnum" where
  "get_total b = (case total_f b of None \<Rightarrow> Fin 0 | Some t \<Rightarrow> t)"

definition get_progress :: "ProgressBar \<Rightarrow> Progress" where
  "get_progress b = progress b"

definition ProgressBar_new :: "platform \<Rightarrow> ProgressBarOptions \<Rightarrow> error + ProgressBar" where
  "ProgressBar_new env options =
     (if not_nullish (opt_interval options) \<and> rejected_interval (opt_interval options)
      then Inl (TypeError ''interval must be a number >= 0'')
      else if not_nullish (opt_total options) \<and> rejected_total (opt_total options)
      then Inl (TypeError ''total must be a number > 0'')
      else
        (let total_opt = (case opt_total options of JNumber n \<Rightarrow> Some n | _ \<Rightarrow> None);
             fmt = (case opt_format options of None \<Rightarrow> ''{bar} {percent}'' | Some f \<Rightarrow> f);
             b = \<lparr> tokens = Some [],
                   lastDraw = [],
                   completed = False,
                   format = (if \<not> js_includes fmt ''{bar}'' then ''{bar} '' @ fmt else fmt),
                   width = opt_width options,
                   minWidth = clamp (opt_minWidth options) MIN_WIDTH JUndefined,
                   stream = (case opt_stream options of None \<Rightarrow> stderr env | Some s \<Rightarrow> s),
                   clear = (case opt_clear options of None \<Rightarrow> False | Some c \<Rightarrow> c),
                   completeChar =
                     (case getChar (opt_completeChar options) of None \<Rightarrow> C_COMPLETE | Some c \<Rightarrow> c),
                   incompleteChar =
                     (case getChar (opt_incompleteChar options) of None \<Rightarrow> C_INCOMPLETE | Some c \<Rightarrow> c),
                   line = None,
                   formatValue =
                     (case opt_formatValue options of None \<Rightarrow> Number_toString env | Some f \<Rightarrow> f),
                   interval = clamp (opt_interval options) (Fin 0) JUndefined,
                   total_f = total_opt,
                   prevTime = None,
                   startTime = 0,
                   endTime = 0,
                   progress =
                     \<lparr> percent = Fin 0,
                       current = (case opt_current options of None \<Rightarrow> Fin 0 | Some c \<Rightarrow> c),
                       total = (case total_opt of None \<Rightarrow> Fin 0 | Some t \<Rightarrow> t),
                       remaining = Fin 0,
                       eta = Fin 0,
                       runtime = Fin 0,
                       speed = Fin 0 \<rparr> \<rparr>
         in case opt_line options of
              JNumber l \<Rightarrow>
                (if js_lt l (Fin 0) then Inl (Error ''line must be >= 0'')
                 else Inr (b\<lparr>line := Some l\<rparr>))
            | _ \<Rightarrow> Inr b))"

text \<open>\<^verbatim>\<open>#update()\<close>\<close>

definition update :: "ProgressBar \<Rightarrow> ProgressBar" where
  "update b =
     (let cur = current (progress b);
          rt = js_div (Fin (of_int (endTime b - startTime b))) (Fin 1000);
          p1 = (progress b)\<lparr>runtime := round_to rt 3\<rparr>;
          p2 = (case total_f b of
                  Some tot \<Rightarrow>
                    (let rem = js_sub tot cur;
                         p = p1\<lparr>percent := round_to (js_mul (js_div cur tot) (Fin 100)) 3,
                                remaining := rem\<rparr>
                     in if js_gt rt (Fin 0) then
                          (let spd = js_div cur rt
                           in p\<lparr>speed := round_to spd 3, eta := round_to (js_div rem spd) 3\<rparr>)
                        else p)
                | None \<Rightarrow> p1)
      in b\<lparr>progress := p2, completed := (if js_ge cur (total p2) then True else completed b)\<rparr>)"

text \<open>\<^verbatim>\<open>#complete()\<close>\<close>

definition complete_bar :: "ProgressBar \<Rightarrow> effect list" where
  "complete_bar b =
     (if \<not> completed b then []
      else
        (if clear b then
           (if has_clearLine (stream b) then [ClearLine (- 1), CursorTo (Fin 0) (line b)] else [])
         else [Write [CHR 0x0A]])
        @ [OnComplete])"


text \<open>
  \<^verbatim>\<open>#render()\<close>, in parts: the substitution of the built-in and custom tokens, the
  space available to the bar and its width, the bar, and the write of a frame that
  differs from the last one drawn.
\<close>

definition render_tokens :: "platform \<Rightarrow> ProgressBar \<Rightarrow> string" where
  "render_tokens env b =
     (let p = progress b;
          out = js_replace (format b) ''{current}'' (formatValue b (current p));
          out = js_replace out ''{total}'' (formatValue b (total p));
          out = js_replace out ''{elapsed}'' (toFixed (Number_toString env) (runtime p) 1);
          out = js_replace out ''{eta}''
                  (toFixed (Number_toString env) (js_div (eta p) (Fin 1000)) 1);
          out = js_replace out ''{percent}'' (toFixed (Number_toString env) (percent p) 1 @ ''%'');
          out = js_replace out ''{speed}'' (formatValue b (round_to (speed p) 2))
      in case tokens b of
           None \<Rightarrow> out
         | Some kvs \<Rightarrow> foldl (\<lambda>out (key, val). js_replace out (''['' @ key @ '']'') val) out kvs)"

definition available_space :: "platform \<Rightarrow> ProgressBar \<Rightarrow> int \<Rightarrow> int" where
  "available_space env b nonbar_length =
     (let availableSpace = max 0 (columns (stream b) - nonbar_length)
      in if IS_WINDOWS env \<and> availableSpace \<ge> 1 then availableSpace - 1 else availableSpace)"

definition bar_width :: "platform \<Rightarrow> ProgressBar \<Rightarrow> int \<Rightarrow> jsnum" where
  "bar_width env b nonbar_length =
     (let availableSpace = Fin (of_int (available_space env b nonbar_length));
          mw = (if js_gt (minWidth b) availableSpace then availableSpace else minWidth b)
      in clamp (if not_nullish (width b) then width b else JNumber PosInf) mw (JNumber availableSpace))"

definition render_bar :: "platform \<Rightarrow> ProgressBar \<Rightarrow> int \<Rightarrow> error + string" where
  "render_bar env b nonbar_length =
     (let p = progress b;
          ratio = (if js_eq (total p) (Fin 0) then Fin 0 else js_div (current p) (total p));
          w = bar_width env b nonbar_length;
          completeLength = Math_round (js_mul w ratio)
      in case repeat (Math_max (Fin 0) (js_add (js_sub w completeLength) (Fin 1))) (incompleteChar b) of
           Inl e \<Rightarrow> Inl e
         | Inr incomplete \<Rightarrow>
             (case repeat (Math_max (Fin 0) (js_add completeLength (Fin 1))) (completeChar b) of
                Inl e \<Rightarrow> Inl e
              | Inr compl \<Rightarrow>
                  Inr ((if js_gt completeLength (Fin 0) then slice_0_m1 compl @ completeChar b
                        else compl) @ incomplete)))"

definition draw :: "string \<Rightarrow> ProgressBar \<Rightarrow> effect list \<times> ProgressBar" where
  "draw output b =
     (if lastDraw b \<noteq> output
      then ([CursorTo (Fin 0) (line b), Write output, ClearLine 1], b\<lparr>lastDraw := output\<rparr>)
      else ([], b))"

definition render :: "platform \<Rightarrow> ProgressBar \<Rightarrow> error + effect list \<times> ProgressBar" where
  "render env b =
     (if \<not> isTTY (stream b) then Inr ([], b)
      else
        (let output = render_tokens env b;
             cols = columns (stream b);
             nonbarContent = js_replace output ''{bar}'' [];
             len = int (length nonbarContent)
         in if cols > len then
              (case render_bar env b len of
                 Inl e \<Rightarrow> Inl e
               | Inr bar \<Rightarrow> Inr (draw (js_replace output ''{bar}'' bar) b))
            else
              Inr (draw (if cols = len then nonbarContent else substring_0 nonbarContent (cols - 1)) b)))"

text \<open>
  \<^verbatim>\<open>tick(current?, customTokens?)\<close>, at the time \<^verbatim>\<open>Date.now()\<close> gives, in milliseconds:
  first what it does up to and including \<^verbatim>\<open>this.#update()\<close>, then the test
  \<^verbatim>\<open>diff >= this.#interval\<close> on the time since the last redraw, then the whole call.
  An error is the RangeError of \<^const>\<open>repeat\<close>, thrown out of \<^verbatim>\<open>#render()\<close>.
\<close>

definition tick_update ::
  "jsnum option \<Rightarrow> (string \<times> string) list option \<Rightarrow> int \<Rightarrow> ProgressBar \<Rightarrow> ProgressBar" where
  "tick_update cur customTokens now b =
     (let b = b\<lparr>progress := (progress b)\<lparr>current := (case cur of None \<Rightarrow> Fin 1 | Some c \<Rightarrow> c)\<rparr>,
                tokens := customTokens,
                endTime := now\<rparr>;
          b = (if prevTime b = None then b\<lparr>startTime := now, prevTime := Some now\<rparr> else b)
      in update b)"

definition gate_open :: "int \<Rightarrow> ProgressBar \<Rightarrow> bool" where
  "gate_open now b =
     (let diff = now - (case prevTime b of Some t \<Rightarrow> t | None \<Rightarrow> now)
      in js_ge (Fin (of_int diff)) (interval b))"

definition tick ::
  "platform \<Rightarrow> jsnum option \<Rightarrow> (string \<times> string) list option \<Rightarrow> int \<Rightarrow> ProgressBar
     \<Rightarrow> error + effect list \<times> ProgressBar" where
  "tick env cur customTokens now b =
     (let b = tick_update cur customTokens now b
      in if gate_open now b then
           (case render env (b\<lparr>prevTime := Some now\<rparr>) of
              Inl e \<Rightarrow> Inl e
            | Inr (drawn, b') \<Rightarrow> Inr (drawn @ complete_bar b', b'))
         else Inr ([], b))"

text \<open>A sequence of \<^verbatim>\<open>tick\<close> calls; it ends at the first call that throws.\<close>

fun ticks ::
  "platform \<Rightarrow> (jsnum option \<times> (string \<times> string) list option \<times> int) list \<Rightarrow> ProgressBar
     \<Rightarrow> error + effect list \<times> ProgressBar" where
  "ticks env [] b = Inr ([], b)"
| "ticks env ((cur, customTokens, now) # rest) b =
     (case tick env cur customTokens now b of
        Inl e \<Rightarrow> Inl e
      | Inr (effs, b') \<Rightarrow>
          (case ticks env rest b' of
             Inl e \<Rightarrow> Inl e
           | Inr (effs', b'') \<Rightarrow> Inr (effs @ effs', b'')))"


section \<open>ProgressStream\<close>

text \<open>
  The transform stream that counts the bytes passing through it. A chunk is the list of
  its bytes. What the stream does to its surroundings is recorded as effects:
  the chunks pushed on, the callback of a \<^verbatim>\<open>_transform\<close> or \<^verbatim>\<open>_flush\<close> call, the two
  events emitted and the calls of the two listeners of the options, when they are given.
\<close>

datatype stream_effect =
    Push string
  | Push_null
  | Callback
  | Emit_total jsnum
  | OnTotal jsnum
  | OnProgress Progress
  | Emit_progress Progress

record ProgressStreamOptions =
  sopt_total :: jsval
  sopt_interval :: jsval
  sopt_current :: "jsnum option"
  sopt_onProgress :: bool
  sopt_onTotal :: bool

record ProgressStream =
  s_interval :: jsnum
  s_prevTime :: "int option"
  s_startTime :: int
  s_endTime :: int
  s_total :: "jsnum option"
  s_progress :: Progress
  s_onProgress :: bool
  s_onTotal :: bool

text \<open>The setter of \<^verbatim>\<open>total\<close>: the error thrown, if any, what it emitted, and the state.\<close>

definition stream_set_total ::
  "jsval \<Rightarrow> ProgressStream \<Rightarrow> error option \<times> stream_effect list \<times> ProgressStream" where
  "stream_set_total v s =
     (if rejected_total v
      then (Some (Error ''total value must be a finite positive number''), [], s)
      else (case v of
              JNumber n \<Rightarrow>
                (None,
                 Emit_total n # (if s_onTotal s then [OnTotal n] else []),
                 s\<lparr>s_total := Some n, s_progress := (s_progress s)\<lparr>total := n\<rparr>\<rparr>)
            | _ \<Rightarrow> (None, [], s)))"

text \<open>
  The constructor; \<^verbatim>\<open>interval || 0\<close> turns an interval that is absent, zero or NaN
  into \<open>0\<close>. The listener it registers for \<^verbatim>\<open>'pipe'\<close> when no total is given does
  nothing but assign a discovered length through the setter above.
\<close>

definition ProgressStream_new :: "ProgressStreamOptions \<Rightarrow> error + ProgressStream" where
  "ProgressStream_new options =
     (if not_nullish (sopt_interval options) \<and> rejected_interval (sopt_interval options)
      then Inl (TypeError ''interval must be a number >= 0'')
      else if not_nullish (sopt_total options) \<and> rejected_total (sopt_total options)
      then Inl (TypeError ''total must be a number > 0'')
      else
        (let total_opt = (case sopt_total options of JNumber n \<Rightarrow> Some n | _ \<Rightarrow> None);
             total_or_0 = (case total_opt of None \<Rightarrow> Fin 0 | Some t \<Rightarrow> t)
         in Inr \<lparr> s_interval =
                    (case sopt_interval options of
                       JNumber n \<Rightarrow> (if js_eq n (Fin 0) \<or> isNaN n then Fin 0 else n)
                     | _ \<Rightarrow> Fin 0),
                  s_prevTime = None,
                  s_startTime = 0,
                  s_endTime = 0,
                  s_total = total_opt,
                  s_progress =
                    \<lparr> percent = Fin 0,
                      current = (case sopt_current options of None \<Rightarrow> Fin 0 | Some c \<Rightarrow> c),
                      total = total_or_0,
                      remaining = total_or_0,
                      eta = Fin 0,
                      runtime = Fin 0,
                      speed = Fin 0 \<rparr>,
                  s_onProgress = sopt_onProgress options,
                  s_onTotal = sopt_onTotal options \<rparr>))"

text \<open>\<^verbatim>\<open>#update()\<close> of the stream.\<close>

definition stream_update :: "ProgressStream \<Rightarrow> ProgressStream" where
  "stream_update s =
     (let cur = current (s_progress s);
          rt = js_div (Fin (of_int (s_endTime s - s_startTime s))) (Fin 1000);
          p1 = (s_progress s)\<lparr>runtime := round_to rt 3\<rparr>
      in s\<lparr>s_progress :=
             (case s_total s of
                Some tot \<Rightarrow>
                  (let rem = js_sub tot cur;
                       p = p1\<lparr>percent := round_to (js_mul (js_div cur tot) (Fin 100)) 3,
                              remaining := rem\<rparr>
                   in if js_gt rt (Fin 0) then
                        (let spd = js_div cur rt
                         in p\<lparr>speed := round_to spd 3, eta := round_to (js_div rem spd) 3\<rparr>)
                      else p)
              | None \<Rightarrow> p1)\<rparr>)"

text \<open>\<^verbatim>\<open>#emit()\<close>\<close>

definition stream_emit :: "ProgressStream \<Rightarrow> stream_effect list" where
  "stream_emit s =
     (if s_onProgress s then [OnProgress (s_progress s)] else []) @ [Emit_progress (s_progress s)]"

text \<open>\<^verbatim>\<open>_transform(chunk, encoding, callback)\<close>, at the time \<^verbatim>\<open>Date.now()\<close> gives.\<close>

definition transform :: "string \<Rightarrow> int \<Rightarrow> ProgressStream \<Rightarrow> stream_effect list \<times> ProgressStream" where
  "transform chunk now s =
     (let s = s\<lparr>s_progress :=
                  (s_progress s)\<lparr>current := js_add (current (s_progress s)) (Fin (of_nat (length chunk)))\<rparr>,
                s_endTime := now\<rparr>;
          s = (if s_prevTime s = None then s\<lparr>s_startTime := now, s_prevTime := Some now\<rparr> else s);
          s = stream_update s;
          diff = now - (case s_prevTime s of Some t \<Rightarrow> t | None \<Rightarrow> now)
      in if js_ge (Fin (of_int diff)) (s_interval s) then
           (let s = s\<lparr>s_prevTime := Some now\<rparr> in ([Push chunk, Callback] @ stream_emit s, s))
         else ([Push chunk, Callback], s))"

text \<open>
  \<^verbatim>\<open>_flush(callback)\<close>: the error thrown, if any, what was done before it, and the
  state the stream is left in.
\<close>

definition flush :: "int \<Rightarrow> ProgressStream \<Rightarrow> error option \<times> stream_effect list \<times> ProgressStream" where
  "flush now s =
     (let s = s\<lparr>s_endTime := now\<rparr>
      in if js_gt (s_interval s) (Fin 0) then
           (case stream_set_total (JNumber (current (s_progress s))) s of
              (Some e, effs, s') \<Rightarrow> (Some e, [Push_null, Callback] @ effs, s')
            | (None, effs, s') \<Rightarrow>
                (let s'' = stream_update s'
                 in (None, [Push_null, Callback] @ effs @ stream_emit s'', s'')))
         else (None, [Push_null, Callback], s))"


section \<open>speedometer\<close>

unbundle bit_operations_syntax

definition MAX_TICK :: int where
  "MAX_TICK = 65535"

definition RESOLUTION :: jsnum where
  "RESOLUTION = Fin 4"

text \<open>
  The variables the closure of \<^verbatim>\<open>speedometer(seconds)\<close> keeps. An element of the
  buffer, and the rate, is a number or \<^verbatim>\<open>undefined\<close> (\<^const>\<open>None\<close>), which a read outside
  the array gives. \<open>timer_active\<close> says that the interval timer has not been cleared.
\<close>

record speedometer_state =
  size_slots :: jsnum
  buffer :: "jsnum option list"
  pointer :: int
  tick_count :: int
  last_tick :: int
  lastSpeed :: "jsnum option"
  ended :: bool
  timer_active :: bool

text \<open>\<^verbatim>\<open>ToNumber\<close> of an element: \<^verbatim>\<open>undefined\<close> is NaN.\<close>

definition to_number :: "jsnum option \<Rightarrow> jsnum" where
  "to_number v = (case v of None \<Rightarrow> NaN | Some n \<Rightarrow> n)"

text \<open>A value is truthy unless it is \<open>0\<close> or NaN.\<close>

definition truthy :: "jsnum \<Rightarrow> bool" where
  "truthy n = (\<not> js_eq n (Fin 0) \<and> \<not> isNaN n)"

text \<open>
  \<^verbatim>\<open>buffer[i]\<close>: \<^verbatim>\<open>undefined\<close> unless \<^verbatim>\<open>i\<close> is an index of the array.
  \<^verbatim>\<open>buffer[i] = v\<close> at an index past the end extends the array, leaving holes.
\<close>

definition buffer_get :: "jsnum option list \<Rightarrow> jsnum \<Rightarrow> jsnum option" where
  "buffer_get buf i =
     (case i of
        Fin x \<Rightarrow>
          (if of_int \<lfloor>x\<rfloor> = x \<and> 0 \<le> x \<and> nat \<lfloor>x\<rfloor> < length buf then buf ! nat \<lfloor>x\<rfloor> else None)
      | _ \<Rightarrow> None)"

definition buffer_set :: "jsnum option list \<Rightarrow> int \<Rightarrow> jsnum option \<Rightarrow> jsnum option list" where
  "buffer_set buf i v =
     (if i < 0 then buf
      else if nat i < length buf then buf[nat i := v]
      else buf @ replicate (nat i - length buf) None @ [v])"

text \<open>\<^verbatim>\<open>speedometer(seconds = 5)\<close>, with \<^verbatim>\<open>seconds = seconds || 5\<close>.\<close>

definition speedometer :: "jsnum option \<Rightarrow> speedometer_state" where
  "speedometer seconds =
     (let secs = (case seconds of None \<Rightarrow> Fin 5 | Some n \<Rightarrow> (if truthy n then n else Fin 5))
      in \<lparr> size_slots = js_mul RESOLUTION secs,
           buffer = [Some (Fin 0)],
           pointer = 1,
           tick_count = 1,
           last_tick = (1 - 1) AND MAX_TICK,
           lastSpeed = Some (Fin 0),
           ended = False,
           timer_active = True \<rparr>)"

text \<open>The callback of the interval timer; a cleared timer does not fire.\<close>

definition timer_fire :: "speedometer_state \<Rightarrow> speedometer_state" where
  "timer_fire s =
     (if timer_active s then s\<lparr>tick_count := (tick_count s + 1) AND MAX_TICK\<rparr> else s)"

text \<open>\<^verbatim>\<open>end()\<close>\<close>

definition end_speedometer :: "speedometer_state \<Rightarrow> speedometer_state" where
  "end_speedometer s = s\<lparr>ended := True, timer_active := False, buffer := []\<rparr>"

text \<open>
  The loop \<^verbatim>\<open>while (dist--) { ... }\<close> on the buffer and the pointer. It does not end
  when the count never reaches zero (a size that is negative, fractional or infinite),
  so its result is optional.
\<close>

definition carry_step :: "jsnum \<Rightarrow> jsnum option list \<times> int \<Rightarrow> jsnum option list \<times> int" where
  "carry_step sz bp =
     (let buf = fst bp;
          ptr = (if js_eq (Fin (of_int (snd bp))) sz then 0 else snd bp);
          buf = buffer_set buf ptr
                  (buffer_get buf (if ptr = 0 then js_sub sz (Fin 1) else Fin (of_int (ptr - 1))))
      in (buf, ptr + 1))"

partial_function (option) carry_loop ::
  "jsnum \<Rightarrow> jsnum \<Rightarrow> jsnum option list \<times> int \<Rightarrow> (jsnum option list \<times> int) option" where
  "carry_loop sz n bp =
     (if truthy n then carry_loop sz (js_sub n (Fin 1)) (carry_step sz bp) else Some bp)"

declare carry_loop.simps [code]

text \<open>
  The function \<^verbatim>\<open>speed(delta?)\<close> that \<^verbatim>\<open>speedometer\<close> returns: the rate and the new
  state, or \<^const>\<open>None\<close> when the loop does not end.
\<close>

definition speed_call ::
  "jsnum option \<Rightarrow> speedometer_state \<Rightarrow> (jsnum option \<times> speedometer_state) option" where
  "speed_call delta s =
     (if ended s then Some (lastSpeed s, s)
      else
        (case delta of
           None \<Rightarrow> Some (lastSpeed s, end_speedometer s)
         | Some d \<Rightarrow>
             (let n = Fin (of_int ((tick_count s - last_tick s) AND MAX_TICK));
                  n = (if js_gt n (size_slots s) then size_slots s else n)
              in case carry_loop (size_slots s) n (buffer s, pointer s) of
                   None \<Rightarrow> None
                 | Some (buf, ptr) \<Rightarrow>
                     (let buf = (if truthy d
                                 then buffer_set buf (ptr - 1)
                                        (Some (js_add (to_number (buffer_get buf (Fin (of_int (ptr - 1))))) d))
                                 else buf);
                          top = buffer_get buf (Fin (of_int (ptr - 1)));
                          len = Fin (of_nat (length buf));
                          btm = (if js_lt len (size_slots s) then Some (Fin 0)
                                 else buffer_get buf
                                        (if js_eq (Fin (of_int ptr)) (size_slots s) then Fin 0 else Fin (of_int ptr)));
                          spd = (if js_lt len RESOLUTION then top
                                 else Some (js_div (js_mul (js_sub (to_number top) (to_number btm)) RESOLUTION) len))
                      in Some (spd, s\<lparr>last_tick := tick_count s, buffer := buf, pointer := ptr, lastSpeed := spd\<rparr>)))))"

text \<open>
  What happens to a speedometer over time: the timer comes due, or the rate function
  is called. A run collects the rates returned.
\<close>

datatype speedometer_event = Timer_due | Speed "jsnum option"

fun speedometer_run ::
  "speedometer_event list \<Rightarrow> speedometer_state \<Rightarrow> (jsnum option list \<times> speedometer_state) option" where
  "speedometer_run [] s = Some ([], s)"
| "speedometer_run (Timer_due # es) s = speedometer_run es (timer_fire s)"
| "speedometer_run (Speed delta # es) s =
     (case speed_call delta s of
        None \<Rightarrow> None
      | Some (r, s') \<Rightarrow>
          (case speedometer_run es s' of
             None \<Rightarrow> None
           | Some (rs, s'') \<Rightarrow> Some (r # rs, s'')))"


section \<open>Notions and inputs of the properties\<close>

text \<open>
  \<^verbatim>\<open>Number.prototype.toString\<close> on the integers below \<open>10\<^sup>2\<^sup>1\<close> and on the values that
  are not finite; the examples print no other number with it.
\<close>

definition integer_toString :: "jsnum \<Rightarrow> string" where
  "integer_toString n =
     (case n of
        Fin r \<Rightarrow> (if r < 0 then ''-'' else []) @ decimal (nat \<lfloor>\<bar>r\<bar>\<rfloor>)
      | PosInf \<Rightarrow> ''Infinity''
      | NegInf \<Rightarrow> ''-Infinity''
      | NaN \<Rightarrow> ''NaN'')"

definition terminal :: WriteStream where
  "terminal = \<lparr>isTTY = True, columns = 80, has_clearLine = True\<rparr>"

definition redirected :: WriteStream where
  "redirected = \<lparr>isTTY = False, columns = 0, has_clearLine = False\<rparr>"

definition posix :: "WriteStream \<Rightarrow> platform" where
  "posix s = \<lparr>stderr = s, IS_WINDOWS = False, Number_toString = integer_toString\<rparr>"

text \<open>\<^verbatim>\<open>new ProgressBar({})\<close> and \<^verbatim>\<open>new ProgressStream({})\<close>: every option absent.\<close>

definition no_options :: ProgressBarOptions where
  "no_options =
     \<lparr> opt_format = None, opt_total = JUndefined, opt_current = None, opt_width = JUndefined,
       opt_minWidth = JUndefined, opt_interval = JUndefined, opt_stream = None, opt_clear = None,
       opt_completeChar = None, opt_incompleteChar = None, opt_line = JUndefined,
       opt_formatValue = None \<rparr>"

definition no_stream_options :: ProgressStreamOptions where
  "no_stream_options =
     \<lparr> sopt_total = JUndefined, sopt_interval = JUndefined, sopt_current = None,
       sopt_onProgress = False, sopt_onTotal = False \<rparr>"

text \<open>
  A total as the specification rejects it: a value that is not a number (NaN
  included), a number that is not finite, or a number \<open>\<le> 0\<close>.
\<close>

definition invalid_total :: "jsval \<Rightarrow> bool" where
  "invalid_total v = (case v of JNumber (Fin r) \<Rightarrow> r \<le> 0 | _ \<Rightarrow> True)"

text \<open>
  The first example of the README: \<^verbatim>\<open>new ProgressBar({ format: '{bar} {percent}', total: 100 })\<close>,
  on a platform whose standard error is the given stream.
\<close>

definition readme_options :: ProgressBarOptions where
  "readme_options = no_options\<lparr>opt_format := Some ''{bar} {percent}'', opt_total := JNumber (Fin 100)\<rparr>"

definition readme_bar :: "WriteStream \<Rightarrow> ProgressBar" where
  "readme_bar s = projr (ProgressBar_new (posix s) readme_options)"

text \<open>The effects a completed bar adds to a redraw, as \<^verbatim>\<open>#complete()\<close> lists them.\<close>

definition completion_effects :: "ProgressBar \<Rightarrow> effect list" where
  "completion_effects b =
     (if clear b then
        (if has_clearLine (stream b) then [ClearLine (- 1), CursorTo (Fin 0) (line b)] else [])
      else [Write [CHR 0x0A]])
     @ [OnComplete]"

text \<open>\<^verbatim>\<open>new ProgressBar()\<close> on a platform whose standard error is the given stream.\<close>

definition plain_bar :: "WriteStream \<Rightarrow> ProgressBar" where
  "plain_bar s = projr (ProgressBar_new (posix s) no_options)"

text \<open>The chunks of a pipeline passing through \<^verbatim>\<open>_transform\<close>, each at its time.\<close>

fun transforms ::
  "(string \<times> int) list \<Rightarrow> ProgressStream \<Rightarrow> stream_effect list \<times> ProgressStream" where
  "transforms [] s = ([], s)"
| "transforms ((chunk, now) # rest) s =
     (case transform chunk now s of
        (effs, s') \<Rightarrow> (case transforms rest s' of (effs', s'') \<Rightarrow> (effs @ effs', s'')))"

text \<open>A snapshot whose percent, remaining, eta and speed are all \<open>0\<close>.\<close>

definition zero_metrics :: "Progress \<Rightarrow> bool" where
  "zero_metrics p =
     (percent p = Fin 0 \<and> remaining p = Fin 0 \<and> eta p = Fin 0 \<and> speed p = Fin 0)"

text \<open>The elapsed seconds \<^verbatim>\<open>(endTime - startTime) / 1000\<close> of the two classes.\<close>

definition elapsed_seconds :: "int \<Rightarrow> int \<Rightarrow> jsnum" where
  "elapsed_seconds start_ms end_ms = js_div (Fin (of_int (end_ms - start_ms))) (Fin 1000)"


text \<open>\<^verbatim>\<open>new ProgressStream({ interval: 500 })\<close>, as in the second example of the README.\<close>

definition throttled_stream :: ProgressStream where
  "throttled_stream =
     projr (ProgressStream_new (no_stream_options\<lparr>sopt_interval := JNumber (Fin 500)\<rparr>))"

text \<open>The number of calls of the rate function among the events of a run.\<close>

fun count_calls :: "speedometer_event list \<Rightarrow> nat" where
  "count_calls [] = 0"
| "count_calls (Timer_due # es) = count_calls es"
| "count_calls (Speed delta # es) = Suc (count_calls es)"

text \<open>A speedometer of the default window that has recorded 10 units at its first tick.\<close>

definition started_speedometer :: speedometer_state where
  "started_speedometer =
     \<lparr> size_slots = Fin 20, buffer = [Some (Fin 0), Some (Fin 10)], pointer = 2, tick_count = 1,
       last_tick = 1, lastSpeed = Some (Fin 10), ended = False, timer_active = True \<rparr>"

text \<open>
  The fill of the specification: \<^verbatim>\<open>round(barWidth * current / total)\<close>, a half rounded
  up.
\<close>

definition fill_cells :: "int \<Rightarrow> rat \<Rightarrow> rat \<Rightarrow> int" where
  "fill_cells w cur tot = \<lfloor>of_int w * (cur / tot) + 1 / 2\<rfloor>"

text \<open>
  The README's bar with \<^verbatim>\<open>width: 40\<close> on an 80-column terminal, as \<^verbatim>\<open>#render()\<close> sees it
  in a first tick at the given current value.
\<close>

definition width40_bar :: "jsnum \<Rightarrow> ProgressBar" where
  "width40_bar cur =
     (tick_update (Some cur) None 0
        (projr (ProgressBar_new (posix terminal) (readme_options\<lparr>opt_width := JNumber (Fin 40)\<rparr>))))
     \<lparr>prevTime := Some 0\<rparr>"



section \<open>Properties\<close>

subsection \<open>Validation of the total\<close>

lemma rejected_total_iff: "rejected_total v = invalid_total v"
  by (auto simp: rejected_total_def invalid_total_def isNaN_def js_le_def js_eq_def
      split: jsval.splits jsnum.splits)

text \<open>
  C6. A total that is not a number, not finite or \<open>\<le> 0\<close> makes the constructor
  throw when it is given (an option that is \<^verbatim>\<open>undefined\<close> or \<^verbatim>\<open>null\<close> is an option
  left out), and makes the setter of \<^verbatim>\<open>total\<close> throw and leave the whole bar, with its
  total, current and snapshot, as it was.
\<close>

theorem invalid_total_raises:
  assumes "invalid_total v"
  shows "(not_nullish v \<longrightarrow> (\<exists>e. ProgressBar_new P (options\<lparr>opt_total := v\<rparr>) = Inl e))
         \<and> set_total v b = (Some (Error ''total value must be a finite positive number''), b)"
  using assms by (simp add: ProgressBar_new_def set_total_def rejected_total_iff)

theorem invalid_total_raises_witness:
  "invalid_total (JNumber (Fin (- 5)))
   \<and> ProgressBar_new (posix terminal) (no_options\<lparr>opt_total := JNumber (Fin (- 5))\<rparr>)
       = Inl (TypeError ''total must be a number > 0'')
   \<and> set_total (JNumber (Fin (- 5))) (projr (ProgressBar_new (posix terminal) no_options))
       = (Some (Error ''total value must be a finite positive number''),
          projr (ProgressBar_new (posix terminal) no_options))"
proof -
  have inv: "invalid_total (JNumber (Fin (- 5)))"
    by (simp add: invalid_total_def)
  have c: "ProgressBar_new (posix terminal) (no_options\<lparr>opt_total := JNumber (Fin (- 5))\<rparr>)
             = Inl (TypeError ''total must be a number > 0'')"
    by (simp add: ProgressBar_new_def no_options_def rejected_total_def rejected_interval_def
        isNaN_def js_le_def)
  from invalid_total_raises
         [OF inv, of "posix terminal" no_options "projr (ProgressBar_new (posix terminal) no_options)"]
       inv c
  show ?thesis by simp
qed

subsection \<open>Evaluating the floor of a fraction\<close>

lemma floor_numeral_div [simp]: "\<lfloor>numeral a / numeral b :: rat\<rfloor> = numeral a div numeral b"
  by (metis floor_divide_of_int_eq of_int_numeral)

lemma floor_one_div [simp]: "\<lfloor>1 / numeral b :: rat\<rfloor> = 1 div numeral b"
  by (metis floor_divide_of_int_eq of_int_numeral of_int_1)

lemma floor_neg_numeral_div [simp]:
  "\<lfloor>- (numeral a / numeral b) :: rat\<rfloor> = - numeral a div numeral b"
  by (metis floor_divide_of_int_eq of_int_numeral of_int_minus minus_divide_left)

lemmas js_compare_defs = js_ge_def js_gt_def js_le_def js_eq_def isNaN_def

subsection \<open>Replacement in strings\<close>

lemma get_substitution_plain:
  "CHR ''$'' \<notin> set rep \<Longrightarrow> get_substitution m pre post rep = rep"
  by (induction m pre post rep rule: get_substitution.induct) auto



lemma butlast_replicate_snoc: "0 < n \<Longrightarrow> butlast (replicate n x) @ [x] = replicate n x"
proof -
  assume "0 < n"
  then obtain j where n: "n = Suc j" by (cases n) auto
  have s: "replicate (Suc j) x = replicate j x @ [x]" by (simp add: replicate_append_same)
  have "butlast (replicate (Suc j) x) @ [x] = replicate (Suc j) x"
    unfolding s by (simp only: butlast_snoc)
  with n show ?thesis by simp
qed

subsection \<open>What a tick changes\<close>

lemma update_current [simp]: "current (progress (update b)) = current (progress b)"
  by (simp add: update_def Let_def split: option.splits)

lemma update_total [simp]: "total (progress (update b)) = total (progress b)"
  by (simp add: update_def Let_def split: option.splits)

lemma update_completed:
  "completed (update b) = (completed b \<or> js_ge (current (progress b)) (total (progress b)))"
  by (simp add: update_def Let_def split: option.splits)

lemma update_fields [simp]:
  "stream (update b) = stream b" "clear (update b) = clear b" "line (update b) = line b"
  "interval (update b) = interval b" "prevTime (update b) = prevTime b"
  "total_f (update b) = total_f b" "lastDraw (update b) = lastDraw b"
  by (simp_all add: update_def Let_def)

lemma tick_update_current [simp]:
  "current (progress (tick_update cur toks now b)) = (case cur of None \<Rightarrow> Fin 1 | Some c \<Rightarrow> c)"
  by (simp add: tick_update_def Let_def)

lemma tick_update_fields [simp]:
  "stream (tick_update cur toks now b) = stream b"
  "clear (tick_update cur toks now b) = clear b"
  "line (tick_update cur toks now b) = line b"
  "interval (tick_update cur toks now b) = interval b"
  "total_f (tick_update cur toks now b) = total_f b"
  "total (progress (tick_update cur toks now b)) = total (progress b)"
  by (simp_all add: tick_update_def Let_def)

lemma tick_update_completed:
  "completed (tick_update cur toks now b) =
     (completed b \<or> js_ge (case cur of None \<Rightarrow> Fin 1 | Some c \<Rightarrow> c) (total (progress b)))"
  by (simp add: tick_update_def Let_def update_completed)

lemma render_state: "render P b = Inr (effs, b') \<Longrightarrow> \<exists>l. b' = b\<lparr>lastDraw := l\<rparr>"
  by (rule exI [of _ "lastDraw b'"])
     (auto simp: render_def draw_def Let_def split: if_splits sum.splits)

lemma render_effects:
  "render P b = Inr (effs, b') \<Longrightarrow>
     effs = [] \<or> (\<exists>out. effs = [CursorTo (Fin 0) (line b), Write out, ClearLine 1])"
  by (auto simp: render_def draw_def Let_def split: if_splits sum.splits)

lemma render_not_tty: "\<not> isTTY (stream b) \<Longrightarrow> render P b = Inr ([], b)"
  by (simp add: render_def)

lemma tick_gated:
  assumes "tick P cur toks now b = Inr (effs, b')"
    and "gate_open now (tick_update cur toks now b)"
  shows "\<exists>drawn l. render P ((tick_update cur toks now b)\<lparr>prevTime := Some now\<rparr>) = Inr (drawn, b')
           \<and> b' = (tick_update cur toks now b)\<lparr>prevTime := Some now, lastDraw := l\<rparr>
           \<and> effs = drawn @ complete_bar b'"
proof -
  from assms obtain drawn where
    r: "render P ((tick_update cur toks now b)\<lparr>prevTime := Some now\<rparr>) = Inr (drawn, b')"
    and e: "effs = drawn @ complete_bar b'"
    by (auto simp: tick_def Let_def split: sum.splits)
  from render_state [OF r] obtain l where
    "b' = (tick_update cur toks now b)\<lparr>prevTime := Some now, lastDraw := l\<rparr>" by auto
  with r e show ?thesis by blast
qed

lemma tick_not_gated:
  assumes "tick P cur toks now b = Inr (effs, b')"
    and "\<not> gate_open now (tick_update cur toks now b)"
  shows "b' = tick_update cur toks now b \<and> effs = []"
  using assms by (auto simp: tick_def Let_def)

lemma tick_current:
  assumes "tick P cur toks now b = Inr (effs, b')"
  shows "current (progress b') = (case cur of None \<Rightarrow> Fin 1 | Some c \<Rightarrow> c)"
proof (cases "gate_open now (tick_update cur toks now b)")
  case True
  from tick_gated [OF assms True] obtain l where
    "b' = (tick_update cur toks now b)\<lparr>prevTime := Some now, lastDraw := l\<rparr>" by blast
  then show ?thesis by simp
next
  case False
  from tick_not_gated [OF assms False] show ?thesis by simp
qed

lemma tick_completed:
  assumes "tick P cur toks now b = Inr (effs, b')"
  shows "completed b' =
     (completed b \<or> js_ge (case cur of None \<Rightarrow> Fin 1 | Some c \<Rightarrow> c) (total (progress b)))"
proof (cases "gate_open now (tick_update cur toks now b)")
  case True
  from tick_gated [OF assms True] obtain l where
    "b' = (tick_update cur toks now b)\<lparr>prevTime := Some now, lastDraw := l\<rparr>" by blast
  then show ?thesis by (simp add: tick_update_completed)
next
  case False
  from tick_not_gated [OF assms False] show ?thesis by (simp add: tick_update_completed)
qed

lemma tick_not_tty:
  assumes "\<not> isTTY (stream b)"
  shows "tick P cur toks now b =
     (if gate_open now (tick_update cur toks now b)
      then Inr (complete_bar ((tick_update cur toks now b)\<lparr>prevTime := Some now\<rparr>),
                (tick_update cur toks now b)\<lparr>prevTime := Some now\<rparr>)
      else Inr ([], tick_update cur toks now b))"
  using assms by (simp add: tick_def Let_def render_not_tty)

subsection \<open>Runs of ticks\<close>

lemma readme_bar_eq:
  "readme_bar s =
     \<lparr> tokens = Some [], lastDraw = [], completed = False, format = ''{bar} {percent}'',
       width = JUndefined, minWidth = Fin 20, stream = s, clear = False,
       completeChar = C_COMPLETE, incompleteChar = C_INCOMPLETE, line = None,
       formatValue = integer_toString, interval = Fin 0, total_f = Some (Fin 100),
       prevTime = None, startTime = 0, endTime = 0,
       progress = \<lparr> percent = Fin 0, current = Fin 0, total = Fin 100, remaining = Fin 0,
                    eta = Fin 0, runtime = Fin 0, speed = Fin 0 \<rparr> \<rparr>"
  by (simp add: readme_bar_def readme_options_def ProgressBar_new_def no_options_def posix_def
      rejected_total_def rejected_interval_def js_compare_defs js_includes_def getChar_def
      MIN_WIDTH_def Math_max_def)

lemma complete_bar_eq:
  "complete_bar b = (if completed b then completion_effects b else [])"
  by (simp add: complete_bar_def completion_effects_def)



lemma ticks_last_current:
  assumes "ticks P (ts @ [(cur, toks, now)]) b = Inr (effs, b')"
  shows "current (progress b') = (case cur of None \<Rightarrow> Fin 1 | Some c \<Rightarrow> c)"
  using assms
proof (induction ts arbitrary: b effs)
  case Nil
  then show ?case by (auto split: sum.splits dest: tick_current)
next
  case (Cons t ts)
  obtain c k n where t: "t = (c, k, n)" by (cases t)
  with Cons.prems obtain e1 b1 e2 where
    "tick P c k n b = Inr (e1, b1)" "ticks P (ts @ [(cur, toks, now)]) b1 = Inr (e2, b')"
    by (auto split: sum.splits)
  with Cons.IH show ?case by blast
qed


lemmas eval_tick = tick_update_def update_def gate_open_def complete_bar_eq completion_effects_def
  js_compare_defs js_sub_def round_to_def Let_def

lemmas eval_render = render_def render_tokens_def js_replace_def toFixed_def fixed_digits_def
  digit_char_def posix_def render_bar_def bar_width_def available_space_def Math_max_def
  Math_min_def repeat_def slice_0_m1_def draw_def C_COMPLETE_def C_INCOMPLETE_def
  butlast_replicate_snoc get_substitution_plain

subsection \<open>A tick without an argument\<close>

text \<open>
  C2. The README's bar on a terminal, ticked twice with no argument, 100 ms apart:
  the current value is 1 after the second call, not 2.
\<close>

theorem two_ticks_without_argument:
  "map_sum id (\<lambda>r. current (progress (snd r)))
     (ticks (posix terminal) [(None, None, 0), (None, None, 100)] (readme_bar terminal))
   = Inr (Fin 1)"
  by (simp add: readme_bar_eq terminal_def tick_def eval_tick eval_render)

subsection \<open>Completion\<close>

text \<open>
  C1, as stated, fails: the README's bar on a terminal, ticked to its total twice,
  100 ms apart, with the interval of 0 it has by default, draws its frame once and
  runs the completion step at both calls.
\<close>

theorem completes_twice:
  "map_sum id fst
     (ticks (posix terminal) [(Some (Fin 100), None, 0), (Some (Fin 100), None, 100)]
        (readme_bar terminal))
   = Inr [CursorTo (Fin 0) None, Write (replicate 73 (CHR 0xDB) @ '' 100.0%''), ClearLine 1,
          Write [CHR 0x0A], OnComplete, Write [CHR 0x0A], OnComplete]"
  by (simp add: readme_bar_eq terminal_def tick_def eval_tick eval_render)

text \<open>
  C1, amended. A tick sets the completed flag when its current value is at least the
  total of the snapshot, and never resets it. The completion step (clear the line, or
  write a newline, then call \<^verbatim>\<open>onComplete\<close>) runs in every tick that passes the
  throttle gate with the flag set, after the redraw, and in no other tick.
\<close>

theorem completion_at_every_gated_tick:
  assumes "tick P cur toks now b = Inr (effs, b')"
  shows "completed b' =
           (completed b \<or> js_ge (case cur of None \<Rightarrow> Fin 1 | Some c \<Rightarrow> c) (total (progress b)))
         \<and> (\<exists>drawn. OnComplete \<notin> set drawn
               \<and> effs = drawn @ (if gate_open now (tick_update cur toks now b) \<and> completed b'
                                 then completion_effects b else []))"
proof (cases "gate_open now (tick_update cur toks now b)")
  case True
  from tick_gated [OF assms True] obtain drawn l where
    r: "render P ((tick_update cur toks now b)\<lparr>prevTime := Some now\<rparr>) = Inr (drawn, b')"
    and b': "b' = (tick_update cur toks now b)\<lparr>prevTime := Some now, lastDraw := l\<rparr>"
    and e: "effs = drawn @ complete_bar b'" by blast
  from render_effects [OF r] have d: "OnComplete \<notin> set drawn" by auto
  from b' have "completion_effects b' = completion_effects b"
    by (simp add: completion_effects_def)
  with e True d tick_completed [OF assms] show ?thesis
    by (auto simp: complete_bar_eq)
next
  case False
  from tick_not_gated [OF assms False] False tick_completed [OF assms] show ?thesis by simp
qed

theorem completion_at_every_gated_tick_witness:
  "tick (posix terminal) (Some (Fin 100)) None 0 (readme_bar terminal)
     = Inr ([CursorTo (Fin 0) None, Write (replicate 73 (CHR 0xDB) @ '' 100.0%''), ClearLine 1,
             Write [CHR 0x0A], OnComplete],
            snd (projr (tick (posix terminal) (Some (Fin 100)) None 0 (readme_bar terminal))))
   \<and> completed (snd (projr (tick (posix terminal) (Some (Fin 100)) None 0 (readme_bar terminal))))
   \<and> gate_open 0 (tick_update (Some (Fin 100)) None 0 (readme_bar terminal))
   \<and> completion_effects (readme_bar terminal) = [Write [CHR 0x0A], OnComplete]"
proof -
  have t: "tick (posix terminal) (Some (Fin 100)) None 0 (readme_bar terminal)
     = Inr ([CursorTo (Fin 0) None, Write (replicate 73 (CHR 0xDB) @ '' 100.0%''), ClearLine 1,
             Write [CHR 0x0A], OnComplete],
            snd (projr (tick (posix terminal) (Some (Fin 100)) None 0 (readme_bar terminal))))"
    by (simp add: readme_bar_eq terminal_def tick_def eval_tick eval_render)
  have g: "gate_open 0 (tick_update (Some (Fin 100)) None 0 (readme_bar terminal))"
    by (simp add: readme_bar_eq eval_tick)
  have c: "completion_effects (readme_bar terminal) = [Write [CHR 0x0A], OnComplete]"
    by (simp add: readme_bar_eq completion_effects_def)
  from completion_at_every_gated_tick [OF t] t g c show ?thesis
    by (simp add: readme_bar_eq js_compare_defs)
qed

subsection \<open>A stream that is not a terminal\<close>




subsection \<open>Metrics while the total is unset\<close>

lemma plain_bar_eq:
  "plain_bar s =
     \<lparr> tokens = Some [], lastDraw = [], completed = False, format = ''{bar} {percent}'',
       width = JUndefined, minWidth = Fin 20, stream = s, clear = False,
       completeChar = C_COMPLETE, incompleteChar = C_INCOMPLETE, line = None,
       formatValue = integer_toString, interval = Fin 0, total_f = None,
       prevTime = None, startTime = 0, endTime = 0,
       progress = \<lparr> percent = Fin 0, current = Fin 0, total = Fin 0, remaining = Fin 0,
                    eta = Fin 0, runtime = Fin 0, speed = Fin 0 \<rparr> \<rparr>"
  by (simp add: plain_bar_def ProgressBar_new_def no_options_def posix_def
      rejected_total_def rejected_interval_def js_compare_defs js_includes_def getChar_def
      MIN_WIDTH_def Math_max_def)

lemma update_unset:
  "total_f b = None \<Longrightarrow>
     progress (update b) = (progress b)\<lparr>runtime := round_to (elapsed_seconds (startTime b) (endTime b)) 3\<rparr>"
  by (simp add: update_def elapsed_seconds_def Let_def)

lemma stream_update_unset:
  "s_total s = None \<Longrightarrow>
     s_progress (stream_update s) =
       (s_progress s)\<lparr>runtime := round_to (elapsed_seconds (s_startTime s) (s_endTime s)) 3\<rparr>"
  by (simp add: stream_update_def elapsed_seconds_def Let_def)

lemma tick_update_unset:
  assumes "total_f b = None" and "zero_metrics (progress b)"
  shows "zero_metrics (progress (tick_update cur toks now b))"
  using assms by (simp add: tick_update_def Let_def update_unset zero_metrics_def)

lemma tick_progress:
  assumes "tick P cur toks now b = Inr (effs, b')"
  shows "progress b' = progress (tick_update cur toks now b) \<and> total_f b' = total_f b"
proof (cases "gate_open now (tick_update cur toks now b)")
  case True
  from tick_gated [OF assms True] obtain l where
    "b' = (tick_update cur toks now b)\<lparr>prevTime := Some now, lastDraw := l\<rparr>" by blast
  then show ?thesis by simp
next
  case False
  from tick_not_gated [OF assms False] show ?thesis by simp
qed

lemma ticks_unset:
  assumes "ticks P ts b = Inr (effs, b')" and "total_f b = None" and "zero_metrics (progress b)"
  shows "total_f b' = None \<and> zero_metrics (progress b')"
  using assms
proof (induction ts arbitrary: b effs)
  case Nil
  then show ?case by simp
next
  case (Cons t ts)
  obtain c k n where t: "t = (c, k, n)" by (cases t)
  with Cons.prems(1) obtain e1 b1 e2 where
    t1: "tick P c k n b = Inr (e1, b1)" and t2: "ticks P ts b1 = Inr (e2, b')"
    by (auto split: sum.splits)
  from tick_progress [OF t1] Cons.prems(2,3) have
    "total_f b1 = None" "zero_metrics (progress b1)"
    by (simp_all add: tick_update_unset)
  with Cons.IH [OF t2] show ?case by blast
qed

lemma ProgressBar_new_unset:
  assumes "ProgressBar_new P opts = Inr b" and "\<not> not_nullish (opt_total opts)"
  shows "total_f b = None \<and> zero_metrics (progress b)"
proof -
  from assms(2) have u: "opt_total opts = JUndefined \<or> opt_total opts = JNull"
    by (cases "opt_total opts") simp_all
  with assms(1) show ?thesis
    by (auto simp: ProgressBar_new_def zero_metrics_def Let_def split: if_splits jsval.splits)
qed

lemma transform_unset:
  assumes "s_total s = None" and "zero_metrics (s_progress s)"
  shows "s_total (snd (transform chunk now s)) = None
         \<and> zero_metrics (s_progress (snd (transform chunk now s)))"
  using assms
  by (simp add: transform_def Let_def stream_update_def zero_metrics_def)

lemma transforms_unset:
  assumes "s_total s = None" and "zero_metrics (s_progress s)"
  shows "s_total (snd (transforms cs s)) = None \<and> zero_metrics (s_progress (snd (transforms cs s)))"
  using assms
proof (induction cs arbitrary: s)
  case Nil
  then show ?case by simp
next
  case (Cons c cs)
  obtain chunk now where c: "c = (chunk, now)" by (cases c)
  obtain e1 s1 where t1: "transform chunk now s = (e1, s1)" by (cases "transform chunk now s")
  from transform_unset [OF Cons.prems, of chunk now] t1 have
    "s_total s1 = None" "zero_metrics (s_progress s1)" by simp_all
  from Cons.IH [OF this] c t1 show ?case by (auto split: prod.splits)
qed

lemma ProgressStream_new_unset:
  assumes "ProgressStream_new opts = Inr s" and "\<not> not_nullish (sopt_total opts)"
  shows "s_total s = None \<and> zero_metrics (s_progress s)"
proof -
  from assms(2) have u: "sopt_total opts = JUndefined \<or> sopt_total opts = JNull"
    by (cases "sopt_total opts") simp_all
  with assms(1) show ?thesis
    by (auto simp: ProgressStream_new_def zero_metrics_def Let_def split: if_splits jsval.splits)
qed


text \<open>
  C4, as stated, fails: a bar constructed without a total, ticked to 5 and, a second
  later, to 10, has a snapshot with one second of runtime and a current value of 10,
  and a speed of 0.
\<close>

theorem unset_total_speed_not_computed:
  "map_sum id (\<lambda>r. (total_f (snd r), runtime (progress (snd r)), current (progress (snd r)),
                      speed (progress (snd r))))
     (ticks (posix terminal) [(Some (Fin 5), None, 0), (Some (Fin 10), None, 1000)]
        (plain_bar terminal))
   = Inr (None, Fin 1, Fin 10, Fin 0)"
  by (simp add: plain_bar_eq terminal_def tick_def eval_tick eval_render)

text \<open>
  C4, amended. While the total is unset a metrics update, of the bar and of the
  stream, recomputes the runtime only: percent, remaining, eta and speed keep the
  values they had. These are 0 from the constructor on, so they are 0 after any
  run of ticks of a bar, or of chunks through a stream, constructed without a total;
  the speed is not computed from the elapsed time.
\<close>

theorem unset_total_metrics_unchanged:
  "(total_f b = None \<longrightarrow>
      progress (update b) =
        (progress b)\<lparr>runtime := round_to (elapsed_seconds (startTime b) (endTime b)) 3\<rparr>)
   \<and> (s_total s = None \<longrightarrow>
      s_progress (stream_update s) =
        (s_progress s)\<lparr>runtime := round_to (elapsed_seconds (s_startTime s) (s_endTime s)) 3\<rparr>)
   \<and> (ProgressBar_new P opts = Inr b0 \<and> \<not> not_nullish (opt_total opts)
        \<and> ticks P ts b0 = Inr (effs, b1)
      \<longrightarrow> total_f b1 = None \<and> zero_metrics (progress b1))
   \<and> (ProgressStream_new sopts = Inr s0 \<and> \<not> not_nullish (sopt_total sopts)
      \<longrightarrow> s_total (snd (transforms cs s0)) = None
          \<and> zero_metrics (s_progress (snd (transforms cs s0))))"
proof (intro conjI impI)
  assume "total_f b = None"
  then show "progress (update b) =
        (progress b)\<lparr>runtime := round_to (elapsed_seconds (startTime b) (endTime b)) 3\<rparr>"
    by (rule update_unset)
next
  assume "s_total s = None"
  then show "s_progress (stream_update s) =
        (s_progress s)\<lparr>runtime := round_to (elapsed_seconds (s_startTime s) (s_endTime s)) 3\<rparr>"
    by (rule stream_update_unset)
next
  assume a: "ProgressBar_new P opts = Inr b0 \<and> \<not> not_nullish (opt_total opts)
        \<and> ticks P ts b0 = Inr (effs, b1)"
  then have "total_f b0 = None \<and> zero_metrics (progress b0)"
    using ProgressBar_new_unset by blast
  moreover from a have "ticks P ts b0 = Inr (effs, b1)" by simp
  ultimately have "total_f b1 = None \<and> zero_metrics (progress b1)"
    using ticks_unset by simp
  then show "total_f b1 = None" and "zero_metrics (progress b1)" by simp_all
next
  assume a: "ProgressStream_new sopts = Inr s0 \<and> \<not> not_nullish (sopt_total sopts)"
  then have "s_total s0 = None \<and> zero_metrics (s_progress s0)"
    using ProgressStream_new_unset by blast
  then have "s_total (snd (transforms cs s0)) = None
        \<and> zero_metrics (s_progress (snd (transforms cs s0)))"
    using transforms_unset by simp
  then show "s_total (snd (transforms cs s0)) = None"
    and "zero_metrics (s_progress (snd (transforms cs s0)))" by simp_all
qed


theorem unset_total_metrics_unchanged_witness:
  "total_f (plain_bar redirected) = None
   \<and> s_total (projr (ProgressStream_new no_stream_options)) = None
   \<and> ProgressBar_new (posix redirected) no_options = Inr (plain_bar redirected)
   \<and> \<not> not_nullish (opt_total no_options)
   \<and> ticks (posix redirected) [(Some (Fin 5), None, 0), (Some (Fin 10), None, 1000)]
         (plain_bar redirected)
       = Inr ([Write [CHR 0x0A], OnComplete, Write [CHR 0x0A], OnComplete],
              snd (projr (ticks (posix redirected)
                [(Some (Fin 5), None, 0), (Some (Fin 10), None, 1000)] (plain_bar redirected))))
   \<and> ProgressStream_new no_stream_options = Inr (projr (ProgressStream_new no_stream_options))
   \<and> \<not> not_nullish (sopt_total no_stream_options)
   \<and> zero_metrics (progress (snd (projr (ticks (posix redirected)
          [(Some (Fin 5), None, 0), (Some (Fin 10), None, 1000)] (plain_bar redirected)))))
   \<and> zero_metrics (s_progress (snd (transforms [(''abc'', 0), (''de'', 1000)]
          (projr (ProgressStream_new no_stream_options)))))"
proof -
  have b: "ProgressBar_new (posix redirected) no_options = Inr (plain_bar redirected)"
    by (simp add: plain_bar_def ProgressBar_new_def no_options_def rejected_interval_def
        rejected_total_def Let_def)
  have n: "\<not> not_nullish (opt_total no_options)" by (simp add: no_options_def)
  have t: "ticks (posix redirected) [(Some (Fin 5), None, 0), (Some (Fin 10), None, 1000)]
         (plain_bar redirected)
       = Inr ([Write [CHR 0x0A], OnComplete, Write [CHR 0x0A], OnComplete],
              snd (projr (ticks (posix redirected)
                [(Some (Fin 5), None, 0), (Some (Fin 10), None, 1000)] (plain_bar redirected))))"
    by (simp add: plain_bar_eq redirected_def tick_not_tty tick_update_def update_def
        gate_open_def complete_bar_eq completion_effects_def js_compare_defs js_sub_def
        round_to_def Let_def)
  have s: "ProgressStream_new no_stream_options = Inr (projr (ProgressStream_new no_stream_options))"
    by (simp add: ProgressStream_new_def no_stream_options_def Let_def)
  have m: "\<not> not_nullish (sopt_total no_stream_options)" by (simp add: no_stream_options_def)
  have u: "total_f (plain_bar redirected) = None" by (simp add: plain_bar_eq)
  have v: "s_total (projr (ProgressStream_new no_stream_options)) = None"
    by (simp add: ProgressStream_new_def no_stream_options_def Let_def)
  from unset_total_metrics_unchanged
         [of "plain_bar redirected" "projr (ProgressStream_new no_stream_options)"
             "posix redirected" no_options "plain_bar redirected"
             "[(Some (Fin 5), None, 0), (Some (Fin 10), None, 1000)]"
             "[Write [CHR 0x0A], OnComplete, Write [CHR 0x0A], OnComplete]"
             "snd (projr (ticks (posix redirected)
                [(Some (Fin 5), None, 0), (Some (Fin 10), None, 1000)] (plain_bar redirected)))"
             no_stream_options "projr (ProgressStream_new no_stream_options)"
             "[(''abc'', 0), (''de'', 1000)]"]
       b n t s m u v
  show ?thesis by simp
qed

subsection \<open>The eta at speed zero\<close>











subsection \<open>Flushing a stream\<close>

text \<open>
  C10. A stream with an interval above 0 that is flushed at a current value of 0
  throws out of the setter of the total: it has pushed the end of the data and
  called the callback, and emits no progress.
\<close>

theorem flush_at_zero_throws:
  assumes "js_gt (s_interval s) (Fin 0)" and "current (s_progress s) = Fin 0"
  shows "flush now s =
           (Some (Error ''total value must be a finite positive number''),
            [Push_null, Callback], s\<lparr>s_endTime := now\<rparr>)"
  using assms
  by (simp add: flush_def stream_set_total_def rejected_total_def js_compare_defs Let_def)

lemma throttled_stream_eq:
  "throttled_stream =
     \<lparr> s_interval = Fin 500, s_prevTime = None, s_startTime = 0, s_endTime = 0,
       s_total = None,
       s_progress = \<lparr> percent = Fin 0, current = Fin 0, total = Fin 0, remaining = Fin 0,
                      eta = Fin 0, runtime = Fin 0, speed = Fin 0 \<rparr>,
       s_onProgress = False, s_onTotal = False \<rparr>"
  by (simp add: throttled_stream_def ProgressStream_new_def no_stream_options_def
      rejected_total_def rejected_interval_def js_compare_defs Let_def)

theorem flush_at_zero_throws_witness:
  "js_gt (s_interval (snd (transforms [([], 10)] throttled_stream))) (Fin 0)
   \<and> current (s_progress (snd (transforms [([], 10)] throttled_stream))) = Fin 0
   \<and> flush 1000 (snd (transforms [([], 10)] throttled_stream))
       = (Some (Error ''total value must be a finite positive number''),
          [Push_null, Callback],
          (snd (transforms [([], 10)] throttled_stream))\<lparr>s_endTime := 1000\<rparr>)"
proof -
  have i: "js_gt (s_interval (snd (transforms [([], 10)] throttled_stream))) (Fin 0)"
    by (simp add: throttled_stream_eq transform_def stream_update_def Let_def js_compare_defs)
  have c: "current (s_progress (snd (transforms [([], 10)] throttled_stream))) = Fin 0"
    by (simp add: throttled_stream_eq transform_def stream_update_def Let_def js_compare_defs)
  from flush_at_zero_throws [OF i c, of 1000] i c show ?thesis by simp
qed

subsection \<open>The speedometer after its end\<close>

lemma ended_run:
  assumes "ended s" and "\<not> timer_active s"
  shows "speedometer_run es s = Some (replicate (count_calls es) (lastSpeed s), s)"
proof (induction es)
  case Nil
  show ?case by simp
next
  case (Cons e es)
  show ?case
  proof (cases e)
    case Timer_due
    with Cons assms show ?thesis by (simp add: timer_fire_def)
  next
    case (Speed delta)
    with Cons assms show ?thesis by (simp add: speed_call_def)
  qed
qed

text \<open>
  C8. The first call of the rate function with no delta returns the last rate, sets
  the ended flag, clears the timer and empties the buffer. From then on nothing changes
  the state: the timer does not fire, and every call, with a delta or without,
  returns that same rate.
\<close>

theorem frozen_after_end:
  assumes "\<not> ended s"
  shows "speed_call None s = Some (lastSpeed s, end_speedometer s)
         \<and> ended (end_speedometer s) \<and> \<not> timer_active (end_speedometer s)
         \<and> speedometer_run es (end_speedometer s)
             = Some (replicate (count_calls es) (lastSpeed s), end_speedometer s)"
proof -
  have e: "ended (end_speedometer s)" and t: "\<not> timer_active (end_speedometer s)"
    and l: "lastSpeed (end_speedometer s) = lastSpeed s"
    by (simp_all add: end_speedometer_def)
  from ended_run [OF e t, of es] l assms e t show ?thesis
    by (simp add: speed_call_def)
qed

lemma started_speedometer_reached:
  "speedometer_run [Speed (Some (Fin 10))] (speedometer None) = Some ([Some (Fin 10)], started_speedometer)"
  by code_simp

theorem frozen_after_end_witness:
  "\<not> ended started_speedometer
   \<and> speed_call None started_speedometer = Some (Some (Fin 10), end_speedometer started_speedometer)
   \<and> \<not> timer_active (end_speedometer started_speedometer)
   \<and> speedometer_run [Timer_due, Speed (Some (Fin 100)), Timer_due, Speed None, Speed (Some (Fin 7))]
        (end_speedometer started_speedometer)
       = Some ([Some (Fin 10), Some (Fin 10), Some (Fin 10)], end_speedometer started_speedometer)"
proof -
  have n: "\<not> ended started_speedometer" by (simp add: started_speedometer_def)
  from frozen_after_end [OF n,
      of "[Timer_due, Speed (Some (Fin 100)), Timer_due, Speed None, Speed (Some (Fin 7))]"] n
  show ?thesis by (simp add: started_speedometer_def)
qed

subsection \<open>The cells of the bar\<close>

lemma repeat_int:
  assumes "0 \<le> n" and "n < 2 ^ 32"
  shows "repeat (Fin (of_int n)) c = Inr (concat (replicate (nat n - 1) c))"
proof -
  from assms(2) have "(of_int n :: rat) < of_int (2 ^ 32)" by (simp only: of_int_less_iff)
  then have "(of_int n :: rat) < 2 ^ 32" by simp
  with assms(1) show ?thesis by (simp add: repeat_def)
qed

lemma head_glyph:
  assumes "length c \<le> 1" and "0 < k"
  shows "slice_0_m1 (concat (replicate k c)) @ c = concat (replicate k c)"
proof (cases c)
  case Nil
  then show ?thesis by (simp add: slice_0_m1_def)
next
  case (Cons x xs)
  with assms(1) have c: "c = [x]" by simp
  from assms(2) obtain j where k: "k = Suc j" by (cases k) auto
  have r: "concat (replicate k [x]) = replicate k x" by (induction k) auto
  have s: "replicate (Suc j) x = replicate j x @ [x]" by (simp add: replicate_append_same)
  have "butlast (replicate (Suc j) x) @ [x] = replicate (Suc j) x"
    unfolding s by (simp only: butlast_snoc)
  with c k r show ?thesis by (simp add: slice_0_m1_def)
qed


lemma render_bar_cells:
  assumes w: "bar_width P b len = Fin (of_int w)"
    and tot: "total (progress b) = Fin tot" "tot \<noteq> 0"
    and cur: "current (progress b) = Fin cur"
    and fill: "fill = fill_cells w cur tot"
    and bounds: "fill < 2 ^ 32 - 1" "w - fill < 2 ^ 32 - 1"
    and glyph: "length (completeChar b) \<le> 1"
  shows "render_bar P b len =
           Inr (concat (replicate (nat fill) (completeChar b))
                @ concat (replicate (nat (w - fill)) (incompleteChar b)))"
proof -
  have cl: "Math_round (js_mul (Fin (of_int w)) (js_div (Fin cur) (Fin tot))) = Fin (of_int fill)"
    using tot(2) fill by (simp add: fill_cells_def)
  have inc: "Math_max (Fin 0) (js_add (js_sub (Fin (of_int w)) (Fin (of_int fill))) (Fin 1))
               = Fin (of_int (max 0 (w - fill + 1)))"
    by (simp add: Math_max_def js_sub_def max_def)
  have com: "Math_max (Fin 0) (js_add (Fin (of_int fill)) (Fin 1)) = Fin (of_int (max 0 (fill + 1)))"
    by (simp add: Math_max_def max_def)
  have ri: "repeat (Fin (of_int (max 0 (w - fill + 1)))) (incompleteChar b)
              = Inr (concat (replicate (nat (w - fill)) (incompleteChar b)))"
  proof -
    have "nat (max 0 (w - fill + 1)) - 1 = nat (w - fill)" by (cases "0 \<le> w - fill") auto
    moreover from bounds(2) have "max 0 (w - fill + 1) < 2 ^ 32" by simp
    ultimately show ?thesis using repeat_int [of "max 0 (w - fill + 1)"] by simp
  qed
  have rc: "repeat (Fin (of_int (max 0 (fill + 1)))) (completeChar b)
              = Inr (concat (replicate (nat fill) (completeChar b)))"
  proof -
    have "nat (max 0 (fill + 1)) - 1 = nat fill" by (cases "0 \<le> fill") auto
    moreover from bounds(1) have "max 0 (fill + 1) < 2 ^ 32" by simp
    ultimately show ?thesis using repeat_int [of "max 0 (fill + 1)"] by simp
  qed
  have hd: "(if js_gt (Fin (of_int fill)) (Fin 0)
              then slice_0_m1 (concat (replicate (nat fill) (completeChar b))) @ completeChar b
              else concat (replicate (nat fill) (completeChar b)))
             = concat (replicate (nat fill) (completeChar b))"
    using head_glyph [OF glyph, of "nat fill"] by (simp add: js_gt_def)
  have ratio: "(if js_eq (total (progress b)) (Fin 0) then Fin 0
                else js_div (current (progress b)) (total (progress b)))
               = js_div (Fin cur) (Fin tot)"
    using tot cur by (simp add: js_eq_def)
  show ?thesis
    unfolding render_bar_def Let_def w ratio cl inc com ri rc sum.case hd by (rule refl)
qed


lemma width40_bar_eq:
  "width40_bar cur =
     \<lparr> tokens = None, lastDraw = [], completed = js_ge cur (Fin 100),
       format = ''{bar} {percent}'',
       width = JNumber (Fin 40), minWidth = Fin 20, stream = terminal, clear = False,
       completeChar = C_COMPLETE, incompleteChar = C_INCOMPLETE, line = None,
       formatValue = integer_toString, interval = Fin 0, total_f = Some (Fin 100),
       prevTime = Some 0, startTime = 0, endTime = 0,
       progress = \<lparr> percent = round_to (js_mul (js_div cur (Fin 100)) (Fin 100)) 3,
                    current = cur, total = Fin 100, remaining = js_sub (Fin 100) cur,
                    eta = Fin 0, runtime = Fin 0, speed = Fin 0 \<rparr> \<rparr>"
  by (simp add: width40_bar_def readme_options_def ProgressBar_new_def no_options_def posix_def
      rejected_total_def rejected_interval_def js_compare_defs js_includes_def getChar_def
      MIN_WIDTH_def Math_max_def tick_update_def update_def Let_def round_to_def)


text \<open>The glyphs of a constructed bar are at most one code unit long, and stay so.\<close>

lemma ProgressBar_new_glyph_fields:
  assumes "ProgressBar_new P opts = Inr b"
  shows "completeChar b = (case getChar (opt_completeChar opts) of None \<Rightarrow> C_COMPLETE | Some c \<Rightarrow> c)
         \<and> incompleteChar b =
             (case getChar (opt_incompleteChar opts) of None \<Rightarrow> C_INCOMPLETE | Some c \<Rightarrow> c)"
  using assms by (auto simp: ProgressBar_new_def Let_def split: if_splits jsval.splits)

lemma ProgressBar_new_glyphs:
  assumes "ProgressBar_new P opts = Inr b"
  shows "length (completeChar b) \<le> 1 \<and> length (incompleteChar b) \<le> 1"
proof -
  have g: "length (case getChar s of None \<Rightarrow> d | Some c \<Rightarrow> c) \<le> 1" if "length d \<le> 1" for s d
    using that by (auto simp: getChar_def split: option.splits list.splits)
  have "length C_COMPLETE \<le> 1" and "length C_INCOMPLETE \<le> 1"
    by (simp_all add: C_COMPLETE_def C_INCOMPLETE_def)
  with ProgressBar_new_glyph_fields [OF assms] g show ?thesis by simp
qed

lemma tick_glyphs:
  assumes "tick P cur toks now b = Inr (effs, b')"
  shows "completeChar b' = completeChar b \<and> incompleteChar b' = incompleteChar b"
proof -
  have u: "completeChar (tick_update cur toks now b) = completeChar b"
    "incompleteChar (tick_update cur toks now b) = incompleteChar b"
    by (simp_all add: tick_update_def update_def Let_def)
  show ?thesis
  proof (cases "gate_open now (tick_update cur toks now b)")
    case True
    from tick_gated [OF assms True] obtain l where
      "b' = (tick_update cur toks now b)\<lparr>prevTime := Some now, lastDraw := l\<rparr>" by blast
    with u show ?thesis by simp
  next
    case False
    from tick_not_gated [OF assms False] u show ?thesis by simp
  qed
qed





lemma get_substitution_dollars:
  "get_substitution m pre post (replicate (2 * k) (CHR ''$'') @ r)
     = replicate k (CHR ''$'') @ get_substitution m pre post r"
  by (induction k) simp_all

lemma concat_replicate_single: "concat (replicate n [x]) = replicate n x"
  by (induction n) simp_all

text \<open>
  A glyph that is a dollar sign is not drawn cell for cell: the replacement of
  \<^verbatim>\<open>{bar}\<close> reads each pair of dollar signs as one, so the 20 complete cells of the
  bar of width 40 at 50 of 100 are drawn as 10.
\<close>

lemma dollar_glyph_frame:
  "map_sum id fst (render (posix terminal) ((width40_bar (Fin 50))\<lparr>completeChar := ''$''\<rparr>))
     = Inr [CursorTo (Fin 0) None,
            Write (replicate 10 (CHR ''$'') @ replicate 20 (CHR 0xB0) @ '' 50.0%''),
            ClearLine 1]"
proof -
  define B where "B = (width40_bar (Fin 50))\<lparr>completeChar := ''$''\<rparr>"
  have t: "render_tokens (posix terminal) B = ''{bar} 50.0%''"
    by (simp add: B_def width40_bar_eq render_tokens_def js_replace_def toFixed_def fixed_digits_def
        digit_char_def round_to_def Let_def posix_def)
  have w: "bar_width (posix terminal) B 6 = Fin (of_int 40)"
    by (simp add: B_def width40_bar_eq bar_width_def available_space_def terminal_def posix_def
        js_compare_defs Math_max_def Math_min_def Let_def)
  have f: "(20::int) = fill_cells 40 50 100" by (simp add: fill_cells_def)
  have "render_bar (posix terminal) B 6 =
          Inr (concat (replicate (nat 20) (completeChar B))
               @ concat (replicate (nat (40 - 20)) (incompleteChar B)))"
    by (rule render_bar_cells [OF w _ _ _ f])
       (simp_all add: B_def width40_bar_eq)
  then have bar: "render_bar (posix terminal) B 6
                    = Inr (replicate 20 (CHR ''$'') @ replicate 20 (CHR 0xB0))"
    by (simp add: B_def width40_bar_eq C_INCOMPLETE_def concat_replicate_single)
  have sub: "get_substitution ''{bar}'' [] '' 50.0%''
               (replicate 20 (CHR ''$'') @ replicate 20 (CHR 0xB0))
             = replicate 10 (CHR ''$'') @ replicate 20 (CHR 0xB0)"
    using get_substitution_dollars [of "''{bar}''" "[]" "'' 50.0%''" 10 "replicate 20 (CHR 0xB0)"]
    by (simp add: get_substitution_plain)
  have "render (posix terminal) B
          = Inr (draw (replicate 10 (CHR ''$'') @ replicate 20 (CHR 0xB0) @ '' 50.0%'') B)"
    unfolding render_def Let_def t
    by (simp add: js_replace_def bar sub)
       (simp add: B_def width40_bar_eq terminal_def)
  then show ?thesis
    unfolding B_def [symmetric] by (simp add: draw_def B_def width40_bar_eq)
qed

subsection \<open>The text of the eta\<close>
















end
